theory Spec2Isabelle
  imports Main "HOL-Library.Word"
begin

unbundle bit_operations_syntax

section \<open>tfrdump.cpp: data model\<close>

text \<open>
  The DOS data types of the source: \<^verbatim>\<open>typedef uint8_t BYTE\<close>, \<^verbatim>\<open>typedef uint16_t WORD\<close>,
  \<^verbatim>\<open>typedef uint32_t DWORD\<close>. Arithmetic on them wraps around.
\<close>

type_synonym BYTE = "8 word"
type_synonym WORD = "16 word"
type_synonym DWORD = "32 word"

text \<open>
  C++ does not check an index. Indexing an array at or beyond its declared size is
  undefined behaviour; the model makes every such access a value: \<open>OutOfBounds i n\<close> is an
  access at index \<open>i\<close> of an array of \<open>n\<close> elements. The source raises no error of its own
  anywhere, so this is the only fault there is.
\<close>

datatype fault = OutOfBounds nat nat

definition ebind :: "fault + 'a \<Rightarrow> ('a \<Rightarrow> fault + 'b) \<Rightarrow> fault + 'b" where
  "ebind m f = (case m of Inl e \<Rightarrow> Inl e | Inr v \<Rightarrow> f v)"

text \<open>\<open>elem xs i\<close> is the read \<^verbatim>\<open>xs[i]\<close> of a \<^verbatim>\<open>std::array\<close> or a built-in array.\<close>

definition elem :: "'a list \<Rightarrow> nat \<Rightarrow> fault + 'a" where
  "elem xs i = (if i < length xs then Inr (xs ! i) else Inl (OutOfBounds i (length xs)))"

text \<open>
  A built-in array of three elements, as in \<^verbatim>\<open>BYTE tf_sim[3]\<close>: the type carries the
  declared size. \<open>get3\<close> is the read \<^verbatim>\<open>a[i]\<close>, \<open>put3\<close> the write \<^verbatim>\<open>a[i] = v\<close>.
\<close>

datatype 'a arr3 = Arr3 'a 'a 'a

definition get3 :: "'a arr3 \<Rightarrow> nat \<Rightarrow> fault + 'a" where
  "get3 arr i =
     (case arr of Arr3 a b c \<Rightarrow>
        if i = 0 then Inr a else if i = 1 then Inr b else if i = 2 then Inr c
        else Inl (OutOfBounds i 3))"

definition put3 :: "'a arr3 \<Rightarrow> nat \<Rightarrow> 'a \<Rightarrow> fault + 'a arr3" where
  "put3 arr i v =
     (case arr of Arr3 a b c \<Rightarrow>
        if i = 0 then Inr (Arr3 v b c) else if i = 1 then Inr (Arr3 a v c)
        else if i = 2 then Inr (Arr3 a b v)
        else Inl (OutOfBounds i 3))"

text \<open>
  The data members of \<^verbatim>\<open>class Pilot\<close>, in the order of the source. The members
  \<^verbatim>\<open>unused1\<close> and \<^verbatim>\<open>unused2\<close> are never read or written and are left out; the constant
  table \<^verbatim>\<open>shipnames\<close> is the definition \<open>shipnames\<close> below. The member \<^verbatim>\<open>total\<close> is
  \<open>total_stat\<close> here.
\<close>

record pilot =
  pilotfilebuffer :: "BYTE list"
  navyrank :: BYTE
  difficulty :: BYTE
  points :: DWORD
  level :: WORD
  secretrank :: BYTE
  tf_cert :: BYTE
  ti_cert :: BYTE
  tb_cert :: BYTE
  ta_cert :: BYTE
  gun_cert :: BYTE
  td_cert :: BYTE
  missileboat_cert :: BYTE
  unused_cert :: "BYTE list"
  tf_sim :: "BYTE arr3"
  ti_sim :: "BYTE arr3"
  tb_sim :: "BYTE arr3"
  ta_sim :: "BYTE arr3"
  gun_sim :: "BYTE arr3"
  td_sim :: "BYTE arr3"
  missileboat_sim :: "BYTE arr3"
  activebattle :: BYTE
  battlestatus :: "BYTE list"
  missionchoose :: "BYTE list"
  kills :: "WORD list"
  laserhits :: DWORD
  lasersfired :: DWORD
  warheadsfired :: WORD
  warheadhits :: WORD
  trainingpoints :: "DWORD list"
  battlepoints :: "DWORD list"
  total_stat :: WORD
  captured :: WORD
  lost :: WORD

definition shipnames :: "string list" where
  "shipnames =
     [''X-W'', ''Y-W'', ''A-W'', ''B-W'', ''T/F'', ''T/I'', ''T/B'', ''T/A'', ''T/D'',
      ''TIE Neu1'', ''TIE Neu2'', ''RAK'', ''T-W'', ''Z-95'', ''R-41'', ''GUN'', ''FHR'',
      ''E/F'', ''PSC'', ''SCT'', ''TRN'', ''ATR'', ''ETR'', ''TUG'', ''MKS'', ''CN/A'',
      ''CN/B'', ''CN/C'', ''CN/D'', ''SSL'', ''Heavy Freighter'', ''FRT'', ''FFR'', ''MTRN'',
      ''CTRN'', ''Neuer Frachter 3'', ''MUTR'', ''CORT'', ''Millenium'', ''KRV'', ''M/KRV'',
      ''FRG'', ''M/FRG'', ''LINER'', ''CRKK'', ''ANGRK'', ''EST'', ''DREAD'', ''LCAL'',
      ''AKR'', ''VSZ'', ''ISZ'', ''Super Destroyer'', ''CN/E'', ''CN/F'', ''CN/G'', ''CN/H'',
      ''CN/I'', ''PLT/1'', ''PLT/2'', ''PLT/3'', ''PLT/4'', ''PLT/5'', ''PLT/6'',
      ''Raumstation7'', ''Raumstation8'', ''Raumstation9'', ''FAB/1'']"

text \<open>
  An object whose storage is all zero bytes, with the arrays at their declared sizes. It
  stands for the storage of a \<^verbatim>\<open>Pilot\<close> before its constructor runs wherever a concrete
  one is needed.
\<close>

definition zero_pilot :: pilot where
  "zero_pilot =
     \<lparr> pilotfilebuffer = replicate 3855 0,
       navyrank = 0, difficulty = 0, points = 0, level = 0, secretrank = 0,
       tf_cert = 0, ti_cert = 0, tb_cert = 0, ta_cert = 0, gun_cert = 0, td_cert = 0,
       missileboat_cert = 0, unused_cert = replicate 5 0,
       tf_sim = Arr3 0 0 0, ti_sim = Arr3 0 0 0, tb_sim = Arr3 0 0 0, ta_sim = Arr3 0 0 0,
       gun_sim = Arr3 0 0 0, td_sim = Arr3 0 0 0, missileboat_sim = Arr3 0 0 0,
       activebattle = 0, battlestatus = replicate 13 0, missionchoose = replicate 13 0,
       kills = replicate 68 0, laserhits = 0, lasersfired = 0, warheadsfired = 0,
       warheadhits = 0, trainingpoints = replicate 28 0, battlepoints = replicate 104 0,
       total_stat = 0, captured = 0, lost = 0 \<rparr>"

section \<open>Text output\<close>

text \<open>
  The output stream is the string of the characters written to it. \<open>endl\<close> is the
  newline of \<^verbatim>\<open>std::endl\<close>, \<open>tab\<close> the escape \<^verbatim>\<open>\t\<close> of the string literals.
\<close>

definition endl :: string where
  "endl = [CHR 0x0A]"

definition tab :: string where
  "tab = [CHR 0x09]"

text \<open>\<^verbatim>\<open>out << n\<close> for an unsigned and for a signed integer: the decimal digits.\<close>

fun show_nat :: "nat \<Rightarrow> string" where
  "show_nat n =
     (if n < 10 then [''0123456789'' ! n]
      else show_nat (n div 10) @ [''0123456789'' ! (n mod 10)])"

declare show_nat.simps [simp del]

definition show_int :: "int \<Rightarrow> string" where
  "show_int i = (if i < 0 then ''-'' @ show_nat (nat (- i)) else show_nat (nat i))"

section \<open>The translations to strings\<close>

text \<open>
  \<^verbatim>\<open>Pilot::navyrank_toString\<close>, \<^verbatim>\<open>Pilot::difficulty_toString\<close> and
  \<^verbatim>\<open>Pilot::secretrank_toString\<close> index a local table with the member, with no test of
  the range.
\<close>

definition navyrank_toString :: "pilot \<Rightarrow> fault + string" where
  "navyrank_toString p =
     elem [''Cadet'', ''Officer'', ''Lieutenant'', ''Captain'', ''Commander'', ''General'']
       (unat (navyrank p))"

definition difficulty_toString :: "pilot \<Rightarrow> fault + string" where
  "difficulty_toString p = elem [''easy'', ''medium'', ''hard''] (unat (difficulty p))"

definition secretrank_toString :: "pilot \<Rightarrow> fault + string" where
  "secretrank_toString p =
     elem [''None'', ''First Initiate'', ''Second Circle'', ''Third Circle'',
           ''Fourth Circle'', ''Inner Circle'', ''Emperor's Hand'', ''Emperor's Eyes'',
           ''Emperor's Voice'', ''Emperor's Reach'']
       (unat (secretrank p))"

text \<open>\<^verbatim>\<open>Pilot::getmedal\<close>: a \<^verbatim>\<open>switch\<close> on the byte, which does not use the object.\<close>

definition getmedal :: "BYTE \<Rightarrow> string" where
  "getmedal ship =
     (if ship = 2 then ''bronze''
      else if ship = 3 then ''silver''
      else if ship = 4 then ''gold''
      else ''(none)'')"

section \<open>Reading the file\<close>

text \<open>
  \<^verbatim>\<open>Pilot::betoW\<close> and \<^verbatim>\<open>Pilot::betoDW\<close>. The parameter is an \<^verbatim>\<open>unsigned short\<close>, so the
  argument is taken modulo \<open>2 ^ 16\<close>; \<^verbatim>\<open>offset+1\<close> is computed in \<^verbatim>\<open>int\<close> and does not
  wrap. The byte at the highest index is read first, as in the source.
\<close>

definition betoW :: "pilot \<Rightarrow> nat \<Rightarrow> fault + WORD" where
  "betoW p offset =
     (let off = offset mod 2 ^ 16 in
      ebind (elem (pilotfilebuffer p) (off + 1)) (\<lambda>b1.
      ebind (elem (pilotfilebuffer p) off) (\<lambda>b0.
        Inr ((0 OR push_bit 8 (ucast b1)) OR ucast b0))))"

definition betoDW :: "pilot \<Rightarrow> nat \<Rightarrow> fault + DWORD" where
  "betoDW p offset =
     (let off = offset mod 2 ^ 16 in
      ebind (elem (pilotfilebuffer p) (off + 3)) (\<lambda>b3.
      ebind (elem (pilotfilebuffer p) (off + 2)) (\<lambda>b2.
      ebind (elem (pilotfilebuffer p) (off + 1)) (\<lambda>b1.
      ebind (elem (pilotfilebuffer p) off) (\<lambda>b0.
        Inr ((((0 OR push_bit 24 (ucast b3)) OR push_bit 16 (ucast b2))
              OR push_bit 8 (ucast b1)) OR ucast b0))))))"

text \<open>
  The loop of the constructor that reads the file, one byte at a time:
  \<^verbatim>\<open>for(int i=0; i < 3855 ; ++i) { pilotstream.read(readbuffer,1);
  pilotfilebuffer[i] = (BYTE) *readbuffer; }\<close>.
  \<open>rb\<close> is the byte in \<^verbatim>\<open>*readbuffer\<close> and \<open>s\<close> the bytes of the file not read yet. At
  the end of the file \<^verbatim>\<open>read\<close> fails and stores nothing, and the source does not test
  the stream: \<^verbatim>\<open>*readbuffer\<close> keeps the byte it had.
\<close>

function read_loop :: "nat \<Rightarrow> BYTE \<Rightarrow> BYTE list \<Rightarrow> BYTE list \<Rightarrow> BYTE list" where
  "read_loop i rb s buf =
     (if i < 3855 then
        (case s of
           [] \<Rightarrow> read_loop (i + 1) rb [] (buf[i := rb])
         | b # s' \<Rightarrow> read_loop (i + 1) b s' (buf[i := b]))
      else buf)"
  by pat_completeness auto
termination
  by (relation "measure (\<lambda>(i, rb, s, buf). 3855 - i)") auto

declare read_loop.simps [simp del]

text \<open>
  The first lines of the constructor: the buffer is filled with zero, then the file is
  read into it if the stream is open. \<open>file\<close> is \<open>None\<close> when the file cannot be opened and
  its bytes otherwise; \<open>rb\<close> is the byte that \<^verbatim>\<open>new char\<close> leaves in \<^verbatim>\<open>*readbuffer\<close>, which
  the source does not initialise.
\<close>

definition load_file :: "BYTE \<Rightarrow> BYTE list option \<Rightarrow> BYTE list" where
  "load_file rb file =
     (case file of
        None \<Rightarrow> replicate 3855 0
      | Some s \<Rightarrow> read_loop 0 rb s (replicate 3855 0))"

text \<open>
  The loops of the constructor that fill a \<^verbatim>\<open>std::array\<close> of \<open>n\<close> elements,
  \<^verbatim>\<open>for(int i=0; i<a.size(); i++) a[i] = ...\<close>: \<open>rd i\<close> is the right-hand side at index
  \<open>i\<close>, \<open>acc\<close> the elements stored so far.
\<close>

function copy_loop :: "(nat \<Rightarrow> fault + 'a) \<Rightarrow> nat \<Rightarrow> nat \<Rightarrow> 'a list \<Rightarrow> fault + 'a list" where
  "copy_loop rd n i acc =
     (if i < n then
        (case rd i of Inl e \<Rightarrow> Inl e | Inr v \<Rightarrow> copy_loop rd n (i + 1) (acc @ [v]))
      else Inr acc)"
  by pat_completeness auto
termination
  by (relation "measure (\<lambda>(rd, n, i, acc). n - i)") auto

declare copy_loop.simps [simp del]

text \<open>The scalars at the start of the file (\<^verbatim>\<open>navyrank\<close> to \<^verbatim>\<open>secretrank\<close>).\<close>

definition read_scalars :: "pilot \<Rightarrow> fault + pilot" where
  "read_scalars p =
     ebind (elem (pilotfilebuffer p) 2) (\<lambda>v1.
     ebind (elem (pilotfilebuffer p) 3) (\<lambda>v2.
     ebind (betoDW p 4) (\<lambda>v3.
     ebind (betoW p 8) (\<lambda>v4.
     ebind (elem (pilotfilebuffer p) 10) (\<lambda>v5.
       Inr (p\<lparr>navyrank := v1, difficulty := v2, points := v3, level := v4,
              secretrank := v5\<rparr>))))))"

text \<open>The training certificates, with the loop over \<^verbatim>\<open>unused_cert\<close>.\<close>

definition read_certs :: "pilot \<Rightarrow> fault + pilot" where
  "read_certs p =
     ebind (elem (pilotfilebuffer p) 90) (\<lambda>v1.
     ebind (elem (pilotfilebuffer p) 91) (\<lambda>v2.
     ebind (elem (pilotfilebuffer p) 92) (\<lambda>v3.
     ebind (elem (pilotfilebuffer p) 93) (\<lambda>v4.
     ebind (elem (pilotfilebuffer p) 94) (\<lambda>v5.
     ebind (elem (pilotfilebuffer p) 95) (\<lambda>v6.
     ebind (elem (pilotfilebuffer p) 96) (\<lambda>v7.
     ebind (copy_loop (\<lambda>i. elem (pilotfilebuffer p) (97 + i)) 5 0 []) (\<lambda>us.
       Inr (p\<lparr>tf_cert := v1, ti_cert := v2, tb_cert := v3, ta_cert := v4, gun_cert := v5,
              td_cert := v6, missileboat_cert := v7, unused_cert := us\<rparr>)))))))))"

text \<open>
  The body of the loop over the fight simulations, for one \<open>i\<close>: seven assignments
  \<^verbatim>\<open>tf_sim[i] = pilotfilebuffer[520+i]; ...\<close> in the order of the source, each into an
  array declared with three elements.
\<close>

definition sim_step :: "pilot \<Rightarrow> nat \<Rightarrow> fault + pilot" where
  "sim_step p i =
     ebind (elem (pilotfilebuffer p) (520 + i)) (\<lambda>v1. ebind (put3 (tf_sim p) i v1) (\<lambda>a1.
     ebind (elem (pilotfilebuffer p) (528 + i)) (\<lambda>v2. ebind (put3 (ti_sim p) i v2) (\<lambda>a2.
     ebind (elem (pilotfilebuffer p) (536 + i)) (\<lambda>v3. ebind (put3 (tb_sim p) i v3) (\<lambda>a3.
     ebind (elem (pilotfilebuffer p) (544 + i)) (\<lambda>v4. ebind (put3 (ta_sim p) i v4) (\<lambda>a4.
     ebind (elem (pilotfilebuffer p) (552 + i)) (\<lambda>v5. ebind (put3 (gun_sim p) i v5) (\<lambda>a5.
     ebind (elem (pilotfilebuffer p) (560 + i)) (\<lambda>v6. ebind (put3 (td_sim p) i v6) (\<lambda>a6.
     ebind (elem (pilotfilebuffer p) (568 + i)) (\<lambda>v7.
     ebind (put3 (missileboat_sim p) i v7) (\<lambda>a7.
       Inr (p\<lparr>tf_sim := a1, ti_sim := a2, tb_sim := a3, ta_sim := a4, gun_sim := a5,
              td_sim := a6, missileboat_sim := a7\<rparr>)))))))))))))))"

text \<open>The loop itself: \<^verbatim>\<open>for(int i=0; i<4; ++i)\<close>.\<close>

function sim_loop :: "pilot \<Rightarrow> nat \<Rightarrow> fault + pilot" where
  "sim_loop p i =
     (if i < 4 then
        (case sim_step p i of Inl e \<Rightarrow> Inl e | Inr p' \<Rightarrow> sim_loop p' (i + 1))
      else Inr p)"
  by pat_completeness auto
termination
  by (relation "measure (\<lambda>(p, i). 4 - i)") auto

declare sim_loop.simps [simp del]

text \<open>The active battle, the status of the 13 battles and their last missions.\<close>

definition read_battles :: "pilot \<Rightarrow> fault + pilot" where
  "read_battles p =
     ebind (elem (pilotfilebuffer p) 616) (\<lambda>v.
     ebind (copy_loop (\<lambda>i. elem (pilotfilebuffer p) (617 + i)) 13 0 []) (\<lambda>bs.
     ebind (copy_loop (\<lambda>i. elem (pilotfilebuffer p) (637 + i)) 13 0 []) (\<lambda>ms.
       Inr (p\<lparr>activebattle := v, battlestatus := bs, missionchoose := ms\<rparr>))))"

text \<open>The kills and the weapon counters; \<^verbatim>\<open>sizeof(WORD)\<close> is 2.\<close>

definition read_kills :: "pilot \<Rightarrow> fault + pilot" where
  "read_kills p =
     ebind (copy_loop (\<lambda>i. betoW p (1632 + i * 2)) 68 0 []) (\<lambda>ks.
     ebind (betoDW p 1908) (\<lambda>v1.
     ebind (betoDW p 1912) (\<lambda>v2.
     ebind (betoW p 1920) (\<lambda>v3.
     ebind (betoW p 1922) (\<lambda>v4.
       Inr (p\<lparr>kills := ks, lasersfired := v1, laserhits := v2, warheadsfired := v3,
              warheadhits := v4\<rparr>))))))"

text \<open>The points of the training and battle missions; \<^verbatim>\<open>sizeof(DWORD)\<close> is 4.\<close>

definition read_points :: "pilot \<Rightarrow> fault + pilot" where
  "read_points p =
     ebind (copy_loop (\<lambda>i. betoDW p (2064 + i * 4)) 28 0 []) (\<lambda>ts.
     ebind (copy_loop (\<lambda>i. betoDW p (2914 + i * 4)) 104 0 []) (\<lambda>bs.
       Inr (p\<lparr>trainingpoints := ts, battlepoints := bs\<rparr>)))"

text \<open>The last three lines of the constructor: \<^verbatim>\<open>total\<close>, \<^verbatim>\<open>captured\<close>, \<^verbatim>\<open>lost\<close>.\<close>

definition read_stats :: "pilot \<Rightarrow> fault + pilot" where
  "read_stats p =
     ebind (betoW p 3554) (\<lambda>v1.
     ebind (betoW p 3556) (\<lambda>v2.
     ebind (betoW p 3854) (\<lambda>v3.
       Inr (p\<lparr>total_stat := v1, captured := v2, lost := v3\<rparr>))))"

text \<open>
  The constructor \<^verbatim>\<open>Pilot::Pilot\<close>. \<open>this\<close> is the storage of the object before the
  constructor runs, \<open>rb\<close> and \<open>file\<close> are as in \<open>load_file\<close>.
\<close>

definition Pilot :: "pilot \<Rightarrow> BYTE \<Rightarrow> BYTE list option \<Rightarrow> fault + pilot" where
  "Pilot this rb file =
     ebind (read_scalars (this\<lparr>pilotfilebuffer := load_file rb file\<rparr>)) (\<lambda>p1.
     ebind (read_certs p1) (\<lambda>p2.
     ebind (sim_loop p2 0) (\<lambda>p3.
     ebind (read_battles p3) (\<lambda>p4.
     ebind (read_kills p4) (\<lambda>p5.
     ebind (read_points p5) (\<lambda>p6.
       read_stats p6))))))"

section \<open>Printing the pilot\<close>

text \<open>
  \<^verbatim>\<open>operator<<(ostream&, Pilot)\<close> is \<open>print_pilot\<close> below. It is one function in the
  source; here each block of it is a function that returns the text the block writes, and
  \<open>print_pilot\<close> puts them in a row.

  The first lines, up to the title of the certificates. \<^verbatim>\<open>(int)p.points\<close> is the signed
  reading of the 32 bits. The three translations are called from left to right here; the
  order only decides which fault is met first.
\<close>

definition out_header :: "pilot \<Rightarrow> fault + string" where
  "out_header p =
     ebind (navyrank_toString p) (\<lambda>r.
     ebind (secretrank_toString p) (\<lambda>s.
     ebind (difficulty_toString p) (\<lambda>d.
       Inr (''Navyrank:'' @ tab @ r
            @ endl @ ''Secret order:'' @ tab @ s
            @ endl @ ''Difficulty:'' @ tab @ d
            @ endl @ ''Points:'' @ tab @ tab @ show_int (sint (points p))
            @ endl @ ''Level:'' @ tab @ tab @ show_int (uint (level p))
            @ endl @ ''Training Certificates:''))))"

text \<open>
  One \<^verbatim>\<open>if((int)p.x_cert == 0x4) { out << name; ++certs; }\<close>, on the text written so far
  and the counter \<^verbatim>\<open>certs\<close>.
\<close>

definition cert_if :: "BYTE \<Rightarrow> string \<Rightarrow> string \<times> int \<Rightarrow> string \<times> int" where
  "cert_if c name st = (if c = 4 then (fst st @ name, snd st + 1) else st)"

definition out_certs :: "pilot \<Rightarrow> string" where
  "out_certs p =
     (let st1 = cert_if (tf_cert p) '' T/F'' ([], 0);
          st2 = cert_if (ti_cert p) '' T/I'' st1;
          st3 = cert_if (tb_cert p) '' T/B'' st2;
          st4 = cert_if (ta_cert p) '' T/A'' st3;
          st5 = cert_if (gun_cert p) '' Gunboat'' st4;
          st6 = cert_if (td_cert p) '' T/D'' st5;
          st7 = cert_if (missileboat_cert p) '' Missile Boat'' st6
      in if snd st7 = 0 then fst st7 @ '' (none)'' else fst st7)"

text \<open>
  The medals. The seven sums \<^verbatim>\<open>tf_medal\<close> to \<^verbatim>\<open>missileboat_medal\<close> are \<^verbatim>\<open>BYTE\<close>s, in
  the order of the source; \<open>medal_step\<close> is the body of \<^verbatim>\<open>for(int i=0; i<4; ++i)\<close>.
\<close>

type_synonym medals = "BYTE \<times> BYTE \<times> BYTE \<times> BYTE \<times> BYTE \<times> BYTE \<times> BYTE"

definition medal_step :: "pilot \<Rightarrow> nat \<Rightarrow> medals \<Rightarrow> fault + medals" where
  "medal_step p i ms =
     (case ms of (m1, m2, m3, m4, m5, m6, m7) \<Rightarrow>
        ebind (get3 (tf_sim p) i) (\<lambda>v1.
        ebind (get3 (ti_sim p) i) (\<lambda>v2.
        ebind (get3 (tb_sim p) i) (\<lambda>v3.
        ebind (get3 (ta_sim p) i) (\<lambda>v4.
        ebind (get3 (gun_sim p) i) (\<lambda>v5.
        ebind (get3 (td_sim p) i) (\<lambda>v6.
        ebind (get3 (missileboat_sim p) i) (\<lambda>v7.
          Inr (m1 + v1, m2 + v2, m3 + v3, m4 + v4, m5 + v5, m6 + v6, m7 + v7)))))))))"

function medal_loop :: "pilot \<Rightarrow> nat \<Rightarrow> medals \<Rightarrow> fault + medals" where
  "medal_loop p i ms =
     (if i < 4 then
        (case medal_step p i ms of Inl e \<Rightarrow> Inl e | Inr ms' \<Rightarrow> medal_loop p (i + 1) ms')
      else Inr ms)"
  by pat_completeness auto
termination
  by (relation "measure (\<lambda>(p, i, ms). 4 - i)") auto

declare medal_loop.simps [simp del]

definition out_medals :: "pilot \<Rightarrow> fault + string" where
  "out_medals p =
     ebind (medal_loop p 0 (0, 0, 0, 0, 0, 0, 0)) (\<lambda>ms.
       case ms of (m1, m2, m3, m4, m5, m6, m7) \<Rightarrow>
         Inr (endl @ ''Ship Medals:''
              @ endl @ tab @ ''T/F: '' @ getmedal m1
              @ endl @ tab @ ''T/I: '' @ getmedal m2
              @ endl @ tab @ ''T/B: '' @ getmedal m3
              @ endl @ tab @ ''T/A: '' @ getmedal m4
              @ endl @ tab @ ''GUN: '' @ getmedal m5
              @ endl @ tab @ ''T/D: '' @ getmedal m6
              @ endl @ tab @ ''Missile Boat: '' @ getmedal m7))"

text \<open>\<^verbatim>\<open>(int)p.activebattle + 1\<close> is computed in \<^verbatim>\<open>int\<close>.\<close>

definition out_activebattle :: "pilot \<Rightarrow> string" where
  "out_activebattle p = endl @ ''Active Battle:'' @ tab @ show_int (uint (activebattle p) + 1)"

text \<open>
  The \<^verbatim>\<open>switch(p.battlestatus[i])\<close> in the loop over the battles: \<^verbatim>\<open>p.missionchoose[i]\<close>
  is read in the three cases that print it and not in the default case.
\<close>

definition battle_case :: "pilot \<Rightarrow> nat \<Rightarrow> fault + string" where
  "battle_case p i =
     (let c = battlestatus p ! i in
      if c = 1 then
        ebind (elem (missionchoose p) i) (\<lambda>m.
          Inr (''active. Last mission: '' @ show_int (uint m)))
      else if c = 3 then
        ebind (elem (missionchoose p) i) (\<lambda>m.
          Inr (''completed. Last mission: '' @ show_int (uint m)))
      else if c = 2 \<or> c = 4 then
        ebind (elem (missionchoose p) i) (\<lambda>m.
          Inr (''captured or killed. Last mission: '' @ show_int (uint m)))
      else Inr ''unknown'')"

text \<open>
  \<^verbatim>\<open>for(int i=0; i<p.battlestatus.size(); i++)\<close>: the value is the text written from
  index \<open>i\<close> on.
\<close>

function battle_loop :: "pilot \<Rightarrow> nat \<Rightarrow> fault + string" where
  "battle_loop p i =
     (if i < length (battlestatus p) then
        (case battle_case p i of
           Inl e \<Rightarrow> Inl e
         | Inr s \<Rightarrow>
             (case battle_loop p (i + 1) of
                Inl e \<Rightarrow> Inl e
              | Inr rest \<Rightarrow>
                  Inr (endl @ ''Battle '' @ show_int (int i + 1) @ '' status:'' @ tab
                       @ s @ rest)))
      else Inr [])"
  by pat_completeness auto
termination
  by (relation "measure (\<lambda>(p, i). length (battlestatus p) - i)") auto

declare battle_loop.simps [simp del]

definition out_battles :: "pilot \<Rightarrow> fault + string" where
  "out_battles p = battle_loop p 0"

text \<open>
  The weapons. \<^verbatim>\<open>100*p.laserhits\<close> is a product of \<^verbatim>\<open>unsigned int\<close>s, of 32 bits;
  \<^verbatim>\<open>100*p.warheadhits\<close> promotes the \<^verbatim>\<open>WORD\<close> to \<^verbatim>\<open>int\<close>, where the product is at most
  6553500 and the division is one of non-negative numbers.
\<close>

definition out_weapons :: "pilot \<Rightarrow> string" where
  "out_weapons p =
     endl @ show_nat (unat (lasersfired p)) @ '' Lasers fired, ''
       @ show_nat (unat (laserhits p)) @ '' Lasers hit''
     @ (if lasersfired p \<noteq> 0
        then '' ('' @ show_nat (unat ((100 * laserhits p) div lasersfired p)) @ ''%)''
        else [])
     @ endl @ show_nat (unat (warheadsfired p)) @ '' Warheads fired, ''
       @ show_nat (unat (warheadhits p)) @ '' Warheads hit''
     @ (if warheadsfired p \<noteq> 0
        then '' ('' @ show_int ((100 * uint (warheadhits p)) div uint (warheadsfired p))
             @ ''%)''
        else [])"

definition out_stats :: "pilot \<Rightarrow> string" where
  "out_stats p =
     endl @ ''Total kills:'' @ tab @ show_nat (unat (total_stat p))
     @ endl @ ''Ships Captured:'' @ tab @ show_nat (unat (captured p))
     @ endl @ ''Ships Lost:'' @ tab @ show_nat (unat (lost p))"

text \<open>\<^verbatim>\<open>for(int i=0; i<p.kills.size(); i++)\<close>, which indexes \<^verbatim>\<open>p.shipnames\<close> as well.\<close>

function kills_loop :: "pilot \<Rightarrow> nat \<Rightarrow> fault + string" where
  "kills_loop p i =
     (if i < length (kills p) then
        (case elem shipnames i of
           Inl e \<Rightarrow> Inl e
         | Inr name \<Rightarrow>
             (case kills_loop p (i + 1) of
                Inl e \<Rightarrow> Inl e
              | Inr rest \<Rightarrow>
                  Inr (endl @ name @ '':'' @ tab @ show_nat (unat (kills p ! i)) @ rest)))
      else Inr [])"
  by pat_completeness auto
termination
  by (relation "measure (\<lambda>(p, i). length (kills p) - i)") auto

declare kills_loop.simps [simp del]

definition out_kills :: "pilot \<Rightarrow> fault + string" where
  "out_kills p = ebind (kills_loop p 0) (\<lambda>ks. Inr (endl @ ''Killdetails:'' @ ks))"

text \<open>
  The two loops over the points have the same shape,
  \<^verbatim>\<open>for(int i=0; i<a.size(); ++i) { if(a[i]) { out << endl << label << training << ":\t"
  << a[i] << " points"; training++; } }\<close>,
  with the label \<^verbatim>\<open>"Training "\<close> and the array \<^verbatim>\<open>p.trainingpoints\<close>, then with
  \<^verbatim>\<open>"Battlemission "\<close> and \<^verbatim>\<open>p.battlepoints\<close>. \<open>k\<close> is the counter, an \<^verbatim>\<open>int\<close> that starts
  at 1; the value is the text written from index \<open>i\<close> on.
\<close>

function points_loop :: "string \<Rightarrow> DWORD list \<Rightarrow> nat \<Rightarrow> int \<Rightarrow> string" where
  "points_loop label a i k =
     (if i < length a then
        (if a ! i \<noteq> 0
         then endl @ label @ show_int k @ '':'' @ tab @ show_nat (unat (a ! i)) @ '' points''
              @ points_loop label a (i + 1) (k + 1)
         else points_loop label a (i + 1) k)
      else [])"
  by pat_completeness auto
termination
  by (relation "measure (\<lambda>(label, a, i, k). length a - i)") auto

declare points_loop.simps [simp del]

definition out_training :: "pilot \<Rightarrow> string" where
  "out_training p = points_loop ''Training '' (trainingpoints p) 0 1"

definition out_battlepoints :: "pilot \<Rightarrow> string" where
  "out_battlepoints p = points_loop ''Battlemission '' (battlepoints p) 0 1"

definition print_pilot :: "pilot \<Rightarrow> fault + string" where
  "print_pilot p =
     ebind (out_header p) (\<lambda>h.
     ebind (out_medals p) (\<lambda>m.
     ebind (out_battles p) (\<lambda>b.
     ebind (out_kills p) (\<lambda>k.
       Inr (h @ out_certs p @ m @ out_activebattle p @ b @ out_weapons p @ out_stats p
            @ k @ out_training p @ out_battlepoints p)))))"

section \<open>The program\<close>

text \<open>
  A run of \<^verbatim>\<open>main\<close> ends with an exit code, the text on the standard output and the text
  on the standard error, or it has an access out of bounds, after which nothing is
  defined. \<open>argv\<close> holds the program name and the arguments, so \<^verbatim>\<open>argc\<close> is its length;
  \<open>fs\<close> gives the bytes of the file at a path, \<open>None\<close> when it cannot be opened. The end of
  \<^verbatim>\<open>main\<close> is reached without a \<^verbatim>\<open>return\<close>, which is exit code 0.
\<close>

datatype outcome = Exit int string string | Undefined fault

definition main :: "string list \<Rightarrow> (string \<Rightarrow> BYTE list option) \<Rightarrow> pilot \<Rightarrow> BYTE \<Rightarrow> outcome" where
  "main argv fs this rb =
     (if length argv \<noteq> 2
      then Exit (- 1) [] (''Please name a pilot file as parameter'' @ endl)
      else
        (case Pilot this rb (fs (argv ! 1)) of
           Inl e \<Rightarrow> Undefined e
         | Inr p \<Rightarrow>
             (case print_pilot p of
                Inl e \<Rightarrow> Undefined e
              | Inr shown \<Rightarrow> Exit 0 (shown @ endl) [])))"

section \<open>Properties of the reading\<close>

lemma length_read_loop: "length (read_loop i rb s buf) = length buf"
  by (induction i rb s buf rule: read_loop.induct)
     (subst read_loop.simps, simp split: list.splits)

lemma length_load_file: "length (load_file rb file) = 3855"
  by (simp add: load_file_def length_read_loop split: option.splits)

lemma read_loop_eq:
  "i \<le> 3855 \<Longrightarrow> length buf = 3855 \<Longrightarrow>
   read_loop i rb s buf =
     take i buf @ take (3855 - i) s @ replicate (3855 - i - length s) (last (rb # s))"
proof (induction i rb s buf rule: read_loop.induct)
  case (1 i rb s buf)
  show ?case
  proof (cases "i < 3855")
    case False
    with "1.prems" have "i = 3855" by simp
    then show ?thesis using "1.prems" by (subst read_loop.simps) simp
  next
    case True
    have tk: "\<And>v. take (Suc i) (buf[i := v]) = take i buf @ [v]"
      using True "1.prems" by (simp add: take_Suc_conv_app_nth)
    show ?thesis
    proof (cases s)
      case Nil
      have "read_loop i rb s buf = read_loop (i + 1) rb [] (buf[i := rb])"
        using True Nil by (subst read_loop.simps) simp
      also have "\<dots> = take (i + 1) (buf[i := rb]) @ replicate (3855 - (i + 1)) rb"
        using "1.IH"(1) [OF True Nil] True "1.prems" by simp
      also have "\<dots> = take i buf @ replicate (3855 - i) rb"
        using True tk by (simp add: replicate_append_same Suc_diff_Suc flip: replicate_Suc)
      finally show ?thesis using Nil by simp
    next
      case (Cons b s')
      have "read_loop i rb s buf = read_loop (i + 1) b s' (buf[i := b])"
        using True Cons by (subst read_loop.simps) simp
      also have "\<dots> = take (i + 1) (buf[i := b]) @ take (3855 - (i + 1)) s'
            @ replicate (3855 - (i + 1) - length s') (last (b # s'))"
        using "1.IH"(2) [OF True Cons] True "1.prems" by simp
      also have "\<dots> = take i buf @ take (3855 - i) s
            @ replicate (3855 - i - length s) (last (rb # s))"
        using True tk Cons by (simp add: take_Cons')
      finally show ?thesis .
    qed
  qed
qed


lemma elem_in: "i < length xs \<Longrightarrow> elem xs i = Inr (xs ! i)"
  by (simp add: elem_def)

lemma elem_out: "length xs \<le> i \<Longrightarrow> elem xs i = Inl (OutOfBounds i (length xs))"
  by (simp add: elem_def)

lemma ebind_Inr [simp]: "ebind (Inr v) f = f v"
  by (simp add: ebind_def)

lemma ebind_Inl [simp]: "ebind (Inl e) f = Inl e"
  by (simp add: ebind_def)

lemma betoW_in:
  "length (pilotfilebuffer p) = 3855 \<Longrightarrow> off + 1 < 3855 \<Longrightarrow>
   betoW p off =
     Inr (push_bit 8 (ucast (pilotfilebuffer p ! (off + 1))) OR ucast (pilotfilebuffer p ! off))"
  by (simp add: betoW_def elem_in)

lemma betoDW_in:
  "length (pilotfilebuffer p) = 3855 \<Longrightarrow> off + 3 < 3855 \<Longrightarrow>
   betoDW p off =
     Inr (((push_bit 24 (ucast (pilotfilebuffer p ! (off + 3)))
            OR push_bit 16 (ucast (pilotfilebuffer p ! (off + 2))))
           OR push_bit 8 (ucast (pilotfilebuffer p ! (off + 1))))
          OR ucast (pilotfilebuffer p ! off))"
  by (simp add: betoDW_def elem_in)

lemma betoW_3854:
  "length (pilotfilebuffer p) = 3855 \<Longrightarrow> betoW p 3854 = Inl (OutOfBounds 3855 3855)"
  by (simp add: betoW_def elem_def)

lemma put3_in:
  "i < 3 \<Longrightarrow> \<exists>a'. put3 a i v = Inr a'"
  by (cases a) (simp add: put3_def)

lemma put3_out: "put3 a 3 v = Inl (OutOfBounds 3 3)"
  by (cases a) (simp add: put3_def)

lemma get3_out: "get3 a 3 = Inl (OutOfBounds 3 3)"
  by (cases a) (simp add: get3_def)

lemma sim_step_in:
  assumes "length (pilotfilebuffer p) = 3855" and "i < 3"
  shows "\<exists>p'. sim_step p i = Inr p' \<and> pilotfilebuffer p' = pilotfilebuffer p"
proof -
  obtain a1 a2 a3 a4 a5 a6 a7 where
    "put3 (tf_sim p) i (pilotfilebuffer p ! (520 + i)) = Inr a1"
    "put3 (ti_sim p) i (pilotfilebuffer p ! (528 + i)) = Inr a2"
    "put3 (tb_sim p) i (pilotfilebuffer p ! (536 + i)) = Inr a3"
    "put3 (ta_sim p) i (pilotfilebuffer p ! (544 + i)) = Inr a4"
    "put3 (gun_sim p) i (pilotfilebuffer p ! (552 + i)) = Inr a5"
    "put3 (td_sim p) i (pilotfilebuffer p ! (560 + i)) = Inr a6"
    "put3 (missileboat_sim p) i (pilotfilebuffer p ! (568 + i)) = Inr a7"
    using put3_in [OF assms(2)] by metis
  then show ?thesis
    using assms by (simp add: sim_step_def elem_in)
qed

lemma sim_step_3:
  "length (pilotfilebuffer p) = 3855 \<Longrightarrow> sim_step p 3 = Inl (OutOfBounds 3 3)"
  by (simp add: sim_step_def elem_in put3_out)

lemma sim_loop_next:
  "i < 4 \<Longrightarrow> sim_step p i = Inr p' \<Longrightarrow> sim_loop p i = sim_loop p' (Suc i)"
  by (subst sim_loop.simps) simp

lemma sim_loop_stop: "i < 4 \<Longrightarrow> sim_step p i = Inl e \<Longrightarrow> sim_loop p i = Inl e"
  by (subst sim_loop.simps) simp

lemma sim_loop_faults:
  assumes "length (pilotfilebuffer p) = 3855"
  shows "sim_loop p 0 = Inl (OutOfBounds 3 3)"
proof -
  obtain p1 where p1: "sim_step p 0 = Inr p1" "pilotfilebuffer p1 = pilotfilebuffer p"
    using sim_step_in [OF assms, of 0] by auto
  obtain p2 where p2: "sim_step p1 (Suc 0) = Inr p2" "pilotfilebuffer p2 = pilotfilebuffer p"
    using sim_step_in [of p1 "Suc 0"] p1 assms by auto
  obtain p3 where p3: "sim_step p2 (Suc (Suc 0)) = Inr p3"
      "pilotfilebuffer p3 = pilotfilebuffer p"
    using sim_step_in [of p2 "Suc (Suc 0)"] p2 assms by auto
  have p4: "sim_step p3 (Suc (Suc (Suc 0))) = Inl (OutOfBounds 3 3)"
    using sim_step_3 [of p3] p3 assms by (simp add: numeral_3_eq_3)
  have "sim_loop p 0 = sim_loop p1 (Suc 0)"
    using p1 by (simp add: sim_loop_next)
  also have "\<dots> = sim_loop p2 (Suc (Suc 0))"
    using p2 by (simp add: sim_loop_next)
  also have "\<dots> = sim_loop p3 (Suc (Suc (Suc 0)))"
    using p3 by (simp add: sim_loop_next)
  also have "\<dots> = Inl (OutOfBounds 3 3)"
    using p4 by (simp add: sim_loop_stop)
  finally show ?thesis .
qed

lemma get3_in: "i < 3 \<Longrightarrow> \<exists>v. get3 a i = Inr v"
  by (cases a) (simp add: get3_def)

lemma medal_step_in: "i < 3 \<Longrightarrow> \<exists>ms'. medal_step p i ms = Inr ms'"
proof -
  assume i: "i < 3"
  obtain v1 v2 v3 v4 v5 v6 v7 where
    "get3 (tf_sim p) i = Inr v1" "get3 (ti_sim p) i = Inr v2" "get3 (tb_sim p) i = Inr v3"
    "get3 (ta_sim p) i = Inr v4" "get3 (gun_sim p) i = Inr v5" "get3 (td_sim p) i = Inr v6"
    "get3 (missileboat_sim p) i = Inr v7"
    using get3_in [OF i] by metis
  then show ?thesis
    by (cases ms) (simp add: medal_step_def)
qed

lemma medal_step_3: "medal_step p 3 ms = Inl (OutOfBounds 3 3)"
  by (cases ms) (simp add: medal_step_def get3_out)

lemma medal_loop_next:
  "i < 4 \<Longrightarrow> medal_step p i ms = Inr ms' \<Longrightarrow> medal_loop p i ms = medal_loop p (Suc i) ms'"
  by (subst medal_loop.simps) simp

lemma medal_loop_stop:
  "i < 4 \<Longrightarrow> medal_step p i ms = Inl e \<Longrightarrow> medal_loop p i ms = Inl e"
  by (subst medal_loop.simps) simp

lemma medal_loop_faults: "medal_loop p 0 ms = Inl (OutOfBounds 3 3)"
proof -
  have "\<exists>m1. medal_step p 0 ms = Inr m1"
    by (rule medal_step_in) simp
  then obtain m1 where m1: "medal_step p 0 ms = Inr m1" ..
  have "\<exists>m2. medal_step p (Suc 0) m1 = Inr m2"
    by (rule medal_step_in) simp
  then obtain m2 where m2: "medal_step p (Suc 0) m1 = Inr m2" ..
  have "\<exists>m3. medal_step p (Suc (Suc 0)) m2 = Inr m3"
    by (rule medal_step_in) simp
  then obtain m3 where m3: "medal_step p (Suc (Suc 0)) m2 = Inr m3" ..
  have m4: "medal_step p (Suc (Suc (Suc 0))) m3 = Inl (OutOfBounds 3 3)"
    using medal_step_3 [of p m3] by (simp add: numeral_3_eq_3)
  have "medal_loop p 0 ms = medal_loop p (Suc 0) m1"
    using m1 by (simp add: medal_loop_next)
  also have "\<dots> = medal_loop p (Suc (Suc 0)) m2"
    using m2 by (simp add: medal_loop_next)
  also have "\<dots> = medal_loop p (Suc (Suc (Suc 0))) m3"
    using m3 by (simp add: medal_loop_next)
  also have "\<dots> = Inl (OutOfBounds 3 3)"
    using m4 by (simp add: medal_loop_stop)
  finally show ?thesis .
qed

lemma copy_loop_eq:
  "i \<le> n \<Longrightarrow> (\<And>j. j < n \<Longrightarrow> rd j = Inr (f j)) \<Longrightarrow>
   copy_loop rd n i acc = Inr (acc @ map f [i..<n])"
proof (induction rd n i acc rule: copy_loop.induct)
  case (1 rd n i acc)
  show ?case
  proof (cases "i < n")
    case True
    have "copy_loop rd n i acc = copy_loop rd n (i + 1) (acc @ [f i])"
      using True "1.prems"(2) by (subst copy_loop.simps) simp
    also have "\<dots> = Inr ((acc @ [f i]) @ map f [i + 1..<n])"
      using True "1.prems"(2) by (intro "1.IH") simp_all
    finally show ?thesis
      using True by (simp add: upt_conv_Cons)
  next
    case False
    then show ?thesis using "1.prems"(1) by (subst copy_loop.simps) simp
  qed
qed

text \<open>
  Every block of the constructor but the fight simulations and the last three lines reads
  within a buffer of 3855 bytes.
\<close>

lemma other_reads_in_bounds:
  assumes "length (pilotfilebuffer p) = 3855"
  shows "(\<exists>q. read_scalars p = Inr q) \<and> (\<exists>q. read_certs p = Inr q)
    \<and> (\<exists>q. read_battles p = Inr q) \<and> (\<exists>q. read_kills p = Inr q)
    \<and> (\<exists>q. read_points p = Inr q)"
proof (intro conjI)
  let ?buf = "pilotfilebuffer p"
  have by1: "copy_loop (\<lambda>i. elem ?buf (b + i)) n 0 [] = Inr ([] @ map (\<lambda>i. ?buf ! (b + i)) [0..<n])"
    if "b + n \<le> 3855" for b n
    using that assms by (intro copy_loop_eq) (simp_all add: elem_in)
  have by2: "copy_loop (\<lambda>i. betoW p (b + i * 2)) n 0 [] =
      Inr ([] @ map (\<lambda>i. push_bit 8 (ucast (?buf ! (b + i * 2 + 1))) OR ucast (?buf ! (b + i * 2)))
                  [0..<n])"
    if "b + n * 2 \<le> 3855" for b n
    using that assms by (intro copy_loop_eq) (simp_all add: betoW_in)
  have by4: "copy_loop (\<lambda>i. betoDW p (b + i * 4)) n 0 [] =
      Inr ([] @ map (\<lambda>i. ((push_bit 24 (ucast (?buf ! (b + i * 4 + 3)))
                            OR push_bit 16 (ucast (?buf ! (b + i * 4 + 2))))
                           OR push_bit 8 (ucast (?buf ! (b + i * 4 + 1))))
                          OR ucast (?buf ! (b + i * 4)))
                  [0..<n])"
    if "b + n * 4 \<le> 3855" for b n
    using that assms by (intro copy_loop_eq) (simp_all add: betoDW_in)
  show "\<exists>q. read_scalars p = Inr q"
    using assms by (simp add: read_scalars_def elem_in betoW_in betoDW_in)
  show "\<exists>q. read_certs p = Inr q"
    using assms by (simp add: read_certs_def elem_in by1)
  show "\<exists>q. read_battles p = Inr q"
    using assms by (simp add: read_battles_def elem_in by1)
  show "\<exists>q. read_kills p = Inr q"
    using assms by (simp add: read_kills_def betoW_in betoDW_in by2)
  show "\<exists>q. read_points p = Inr q"
    by (simp add: read_points_def by4)
qed

text \<open>
  What the loop over the file leaves in the buffer: the first 3855 bytes of the file, and
  after the end of a shorter file the last byte read, over and over (the byte of
  \<^verbatim>\<open>new char\<close> when the file is empty).
\<close>

lemma load_file_eq:
  "load_file rb (Some s) = take 3855 s @ replicate (3855 - length s) (last (rb # s))"
  by (simp add: load_file_def read_loop_eq)


lemma load_file_short:
  "load_file rb (Some [0, 0, 1]) = [0, 0, 1] @ replicate 3852 1"
  by (simp add: load_file_eq)




lemma main_usage_exit:
  "length argv \<noteq> 2 \<Longrightarrow>
   main argv fs this rb = Exit (- 1) [] (''Please name a pilot file as parameter'' @ endl)"
  by (simp add: main_def)

section \<open>Properties of the printing\<close>

lemma show_int_nat: "0 \<le> i \<Longrightarrow> show_int i = show_nat (nat i)"
  by (simp add: show_int_def)

lemma laser_percentage_exact:
  fixes h f :: DWORD
  shows "100 * unat h < 2 ^ 32 \<Longrightarrow> unat ((100 * h) div f) = (100 * unat h) div unat f"
  by (simp add: unat_div unat_word_ariths)

text \<open>
  As long as \<open>100 * laserhits\<close> fits in 32 bits, both percentages are the quotients of
  the numbers, rounded down.
\<close>

lemma out_weapons_small:
  assumes "100 * unat (laserhits p) < 2 ^ 32"
  shows "out_weapons p =
     endl @ show_nat (unat (lasersfired p)) @ '' Lasers fired, ''
       @ show_nat (unat (laserhits p)) @ '' Lasers hit''
     @ (if lasersfired p \<noteq> 0
        then '' ('' @ show_nat ((100 * unat (laserhits p)) div unat (lasersfired p)) @ ''%)''
        else [])
     @ endl @ show_nat (unat (warheadsfired p)) @ '' Warheads fired, ''
       @ show_nat (unat (warheadhits p)) @ '' Warheads hit''
     @ (if warheadsfired p \<noteq> 0
        then '' ('' @ show_nat ((100 * unat (warheadhits p)) div unat (warheadsfired p))
             @ ''%)''
        else [])"
proof -
  have "nat ((100 * uint (warheadhits p)) div uint (warheadsfired p)) =
      (100 * unat (warheadhits p)) div unat (warheadsfired p)"
    by (simp add: nat_div_distrib nat_mult_distrib)
  moreover have "0 \<le> (100 * uint (warheadhits p)) div uint (warheadsfired p)"
    by (simp add: div_int_pos_iff)
  ultimately show ?thesis
    using assms by (simp add: out_weapons_def laser_percentage_exact show_int_nat)
qed

lemma points_loop_eq:
  "0 \<le> k \<Longrightarrow>
   points_loop label a i k =
     concat (map (\<lambda>(n, v). endl @ label @ show_nat n @ '':'' @ tab @ show_nat (unat v)
                            @ '' points'')
               (enumerate (nat k) (filter (\<lambda>v. v \<noteq> 0) (drop i a))))"
proof (induction label a i k rule: points_loop.induct)
  case (1 label a i k)
  show ?case
  proof (cases "i < length a")
    case False
    then show ?thesis by (subst points_loop.simps) simp
  next
    case True
    then have dr: "drop i a = a ! i # drop (i + 1) a"
      by (simp add: Cons_nth_drop_Suc)
    show ?thesis
    proof (cases "a ! i = 0")
      case True
      have "points_loop label a i k = points_loop label a (i + 1) k"
        using True \<open>i < length a\<close> by (subst points_loop.simps) simp
      also note "1.IH"(2) [OF \<open>i < length a\<close> _ "1.prems"]
      finally show ?thesis using True dr by simp
    next
      case False
      have "points_loop label a i k =
          endl @ label @ show_int k @ '':'' @ tab @ show_nat (unat (a ! i)) @ '' points''
          @ points_loop label a (i + 1) (k + 1)"
        using False \<open>i < length a\<close> by (subst points_loop.simps) simp
      also have "points_loop label a (i + 1) (k + 1) =
          concat (map (\<lambda>(n, v). endl @ label @ show_nat n @ '':'' @ tab @ show_nat (unat v)
                            @ '' points'')
               (enumerate (nat (k + 1)) (filter (\<lambda>v. v \<noteq> 0) (drop (i + 1) a))))"
        using "1.prems" by (intro "1.IH"(1) [OF \<open>i < length a\<close> False]) simp
      finally show ?thesis
        using False dr "1.prems" by (simp add: show_int_nat nat_add_distrib)
    qed
  qed
qed

lemma battle_loop_eq:
  assumes "length (battlestatus p) \<le> length (missionchoose p)"
  shows "battle_loop p i =
     Inr (concat (map (\<lambda>i. endl @ ''Battle '' @ show_nat (i + 1) @ '' status:'' @ tab
                  @ (if battlestatus p ! i = 1
                     then ''active. Last mission: '' @ show_nat (unat (missionchoose p ! i))
                     else if battlestatus p ! i = 3
                     then ''completed. Last mission: '' @ show_nat (unat (missionchoose p ! i))
                     else if battlestatus p ! i = 2 \<or> battlestatus p ! i = 4
                     then ''captured or killed. Last mission: ''
                          @ show_nat (unat (missionchoose p ! i))
                     else ''unknown''))
             [i..<length (battlestatus p)]))"
  using assms
proof (induction p i rule: battle_loop.induct)
  case (1 p i)
  show ?case
  proof (cases "i < length (battlestatus p)")
    case False
    then show ?thesis by (subst battle_loop.simps) simp
  next
    case True
    then have el: "elem (missionchoose p) i = Inr (missionchoose p ! i)"
      using "1.prems" by (simp add: elem_in)
    obtain s where s: "battle_case p i = Inr s"
      "s = (if battlestatus p ! i = 1
                     then ''active. Last mission: '' @ show_nat (unat (missionchoose p ! i))
                     else if battlestatus p ! i = 3
                     then ''completed. Last mission: '' @ show_nat (unat (missionchoose p ! i))
                     else if battlestatus p ! i = 2 \<or> battlestatus p ! i = 4
                     then ''captured or killed. Last mission: ''
                          @ show_nat (unat (missionchoose p ! i))
                     else ''unknown'')"
      by (simp add: battle_case_def el show_int_nat)
    note ih = "1.IH" [OF True s(1) "1.prems"]
    have "nat (int i + 1) = i + 1" by simp
    then have "show_int (int i + 1) = show_nat (i + 1)"
      by (simp add: show_int_nat del: of_nat_Suc)
    then show ?thesis
      using True s(1) ih
      by (subst battle_loop.simps) (simp add: upt_conv_Cons [of i] s(2) del: upt_Suc)
  qed
qed

section \<open>The claims\<close>

text \<open>
  Claim C1: every field the constructor reads from the buffer of 3855 bytes lies within
  it, the two bytes of \<^verbatim>\<open>lost\<close> at offset 3854 included, and a read past the end is a
  decode error and never an access out of bounds.

  The source does otherwise. Whatever the file holds, \<^verbatim>\<open>total\<close> and \<^verbatim>\<open>captured\<close> are
  read within the buffer, and the read \<^verbatim>\<open>betoW(3854)\<close> for \<^verbatim>\<open>lost\<close> indexes the buffer
  of 3855 bytes at 3855, one past its last byte, with no test before it.
\<close>

theorem lost_read_past_buffer:
  "read_stats (p\<lparr>pilotfilebuffer := load_file rb file\<rparr>) = Inl (OutOfBounds 3855 3855)"
  by (simp add: read_stats_def betoW_in betoW_3854 length_load_file)

text \<open>
  Claim C2: a file shorter than 3855 bytes is decoded as if the missing bytes were zero.

  The source fills the buffer with zero and then stores \<^verbatim>\<open>*readbuffer\<close> at every index
  up to 3854 without testing whether \<^verbatim>\<open>read\<close> got a byte. For the file of the three
  bytes 00 00 01 the byte at offset 3, the difficulty, is 1 and prints as medium; the same
  three bytes followed by zeros give 0 and easy.
\<close>

theorem short_file_repeats_last_byte:
  "ebind (read_scalars (p\<lparr>pilotfilebuffer := load_file rb (Some [0, 0, 1])\<rparr>))
     difficulty_toString = Inr ''medium''
   \<and> ebind (read_scalars (p\<lparr>pilotfilebuffer := [0, 0, 1] @ replicate 3852 0\<rparr>))
     difficulty_toString = Inr ''easy''"
  by (simp add: load_file_short read_scalars_def betoW_in betoDW_in elem_in nth_append
      difficulty_toString_def)

text \<open>
  Claim C3: for each of the seven ships the constructor fills an array of four counters
  from four bytes in a row, every write within the array, and the medal is computed from
  the sum of the four.

  The source declares each array with three elements (\<^verbatim>\<open>BYTE tf_sim[3]\<close>) and its loops
  run \<open>i\<close> up to 3. Whatever the file holds, the loop of the constructor writes
  \<^verbatim>\<open>tf_sim[3]\<close>, and whatever the pilot, the loop that sums the medals reads it.
\<close>

theorem sim_write_past_array:
  "sim_loop (p\<lparr>pilotfilebuffer := load_file rb file\<rparr>) 0 = Inl (OutOfBounds 3 3)
   \<and> medal_loop q 0 ms = Inl (OutOfBounds 3 3)"
  by (simp add: sim_loop_faults length_load_file medal_loop_faults)

text \<open>
  Claim C4, as stated: the three translations answer every code from 0 to 255, with the
  label for a code in range and with the error UnknownCode otherwise, and never index out
  of bounds. It fails: rank 6, difficulty 3 and secret rank 10 index the tables of 6, 3 and
  10 labels one past the end. The source has no test of the range and no such error.
\<close>

theorem enum_no_range_check:
  "navyrank_toString (zero_pilot\<lparr>navyrank := 6\<rparr>) = Inl (OutOfBounds 6 6)
   \<and> difficulty_toString (zero_pilot\<lparr>difficulty := 3\<rparr>) = Inl (OutOfBounds 3 3)
   \<and> secretrank_toString (zero_pilot\<lparr>secretrank := 10\<rparr>) = Inl (OutOfBounds 10 10)"
  by (simp add: navyrank_toString_def difficulty_toString_def secretrank_toString_def elem_def)

text \<open>
  Claim C4, amended: every code in range (rank 0 to 5, difficulty 0 to 2, secret rank 0 to
  9) is translated to its label.
\<close>

theorem enum_labels_in_range:
  "map (\<lambda>c. navyrank_toString (p\<lparr>navyrank := c\<rparr>)) [0, 1, 2, 3, 4, 5] =
     map Inr [''Cadet'', ''Officer'', ''Lieutenant'', ''Captain'', ''Commander'', ''General'']
   \<and> map (\<lambda>c. difficulty_toString (p\<lparr>difficulty := c\<rparr>)) [0, 1, 2] =
     map Inr [''easy'', ''medium'', ''hard'']
   \<and> map (\<lambda>c. secretrank_toString (p\<lparr>secretrank := c\<rparr>)) [0, 1, 2, 3, 4, 5, 6, 7, 8, 9] =
     map Inr [''None'', ''First Initiate'', ''Second Circle'', ''Third Circle'',
              ''Fourth Circle'', ''Inner Circle'', ''Emperor's Hand'', ''Emperor's Eyes'',
              ''Emperor's Voice'', ''Emperor's Reach'']"
  by (simp add: navyrank_toString_def difficulty_toString_def secretrank_toString_def elem_def)



text \<open>
  Claim C6, as stated: the medal of the sums 0 and 1 and of every sum but 2, 3 and 4 is the
  label none. It fails on the label: the source returns the text (none), in parentheses.
\<close>

theorem getmedal_none_counterexample: "getmedal 0 \<noteq> ''none''"
  by (simp add: getmedal_def)

text \<open>
  Claim C6, amended: \<^verbatim>\<open>getmedal\<close> answers every byte; 2 is bronze, 3 is silver, 4 is gold,
  and 0, 1 and every other sum are (none), in parentheses.
\<close>

theorem getmedal_table:
  "getmedal 0 = ''(none)'' \<and> getmedal 1 = ''(none)'' \<and> getmedal 2 = ''bronze''
   \<and> getmedal 3 = ''silver'' \<and> getmedal 4 = ''gold''
   \<and> (getmedal s = ''(none)'') = (s \<noteq> 2 \<and> s \<noteq> 3 \<and> s \<noteq> 4)"
  by (simp add: getmedal_def)

text \<open>
  Claim C7: for lasers and for warheads the numbers fired and hit are always printed, and
  a percentage is added exactly when the number fired is not zero; it is
  \<open>100 * hits div fired\<close>.

  For the lasers the source multiplies in 32 bits. With 42949673 lasers fired and as many
  hits the product \<open>100 * 42949673\<close> wraps around to 4 and the line says 0 percent, where
  the quotient is 100.
\<close>

theorem laser_percentage_wraps:
  "out_weapons (zero_pilot\<lparr>lasersfired := 42949673, laserhits := 42949673\<rparr>) =
     endl @ ''42949673 Lasers fired, 42949673 Lasers hit (0%)''
     @ endl @ ''0 Warheads fired, 0 Warheads hit''"
  by (simp add: out_weapons_def zero_pilot_def show_nat.simps)

text \<open>
  Claim C8: of the training points and of the battle points only the entries that are not
  zero are printed, one line each, and the numbers in the labels count the printed lines
  from 1 in each of the two sections, not the indices; the array 0, 150, 0, 300 gives the
  two lines Training 1 with 150 points and Training 2 with 300 points. (In the text of
  the source a tab follows the colon.)
\<close>

theorem points_lines_sequential:
  "out_training p =
     concat (map (\<lambda>(n, v). endl @ ''Training '' @ show_nat n @ '':'' @ tab
                            @ show_nat (unat v) @ '' points'')
               (enumerate 1 (filter (\<lambda>v. v \<noteq> 0) (trainingpoints p))))
   \<and> out_battlepoints p =
     concat (map (\<lambda>(n, v). endl @ ''Battlemission '' @ show_nat n @ '':'' @ tab
                            @ show_nat (unat v) @ '' points'')
               (enumerate 1 (filter (\<lambda>v. v \<noteq> 0) (battlepoints p))))
   \<and> out_training (p\<lparr>trainingpoints := [0, 150, 0, 300]\<rparr>) =
     endl @ ''Training 1:'' @ tab @ ''150 points'' @ endl @ ''Training 2:'' @ tab @ ''300 points''"
  by (simp add: out_training_def out_battlepoints_def points_loop_eq show_nat.simps)

text \<open>
  Claim C9, as stated: each battle is printed with one of the four words for its status and
  with its last mission. It fails for a status that is none of 1, 2, 3 and 4: the line
  ends with the word unknown and the last mission is not printed. Here every status is 0
  and every last mission is 5.
\<close>

theorem unknown_status_without_mission:
  "out_battles (zero_pilot\<lparr>missionchoose := replicate 13 5\<rparr>) =
     Inr (endl @ ''Battle 1 status:'' @ tab @ ''unknown''
        @ endl @ ''Battle 2 status:'' @ tab @ ''unknown''
        @ endl @ ''Battle 3 status:'' @ tab @ ''unknown''
        @ endl @ ''Battle 4 status:'' @ tab @ ''unknown''
        @ endl @ ''Battle 5 status:'' @ tab @ ''unknown''
        @ endl @ ''Battle 6 status:'' @ tab @ ''unknown''
        @ endl @ ''Battle 7 status:'' @ tab @ ''unknown''
        @ endl @ ''Battle 8 status:'' @ tab @ ''unknown''
        @ endl @ ''Battle 9 status:'' @ tab @ ''unknown''
        @ endl @ ''Battle 10 status:'' @ tab @ ''unknown''
        @ endl @ ''Battle 11 status:'' @ tab @ ''unknown''
        @ endl @ ''Battle 12 status:'' @ tab @ ''unknown''
        @ endl @ ''Battle 13 status:'' @ tab @ ''unknown'')"
  by (simp add: out_battles_def battle_loop_eq zero_pilot_def show_nat.simps upt_conv_Cons
      del: upt_Suc)

text \<open>
  Claim C9, amended: for each of the 13 battles the status 1 is printed as active, 3 as
  completed, 2 and 4 as captured or killed, each followed by the last mission of that
  battle; any other status is printed as unknown, with no last mission, and the lines of
  the other battles are printed all the same.
\<close>

theorem battle_status_lines:
  "length (battlestatus p) = 13 \<Longrightarrow> length (missionchoose p) = 13 \<Longrightarrow>
   out_battles p =
     Inr (concat (map (\<lambda>i. endl @ ''Battle '' @ show_nat (i + 1) @ '' status:'' @ tab
                  @ (if battlestatus p ! i = 1
                     then ''active. Last mission: '' @ show_nat (unat (missionchoose p ! i))
                     else if battlestatus p ! i = 3
                     then ''completed. Last mission: '' @ show_nat (unat (missionchoose p ! i))
                     else if battlestatus p ! i = 2 \<or> battlestatus p ! i = 4
                     then ''captured or killed. Last mission: ''
                          @ show_nat (unat (missionchoose p ! i))
                     else ''unknown''))
             [0..<13]))"
  by (simp add: out_battles_def battle_loop_eq)

text \<open>Claim C9, the amended statement at a pilot with every kind of status.\<close>

theorem battle_status_lines_witness:
  "length (battlestatus (zero_pilot\<lparr>battlestatus := [3, 1, 2, 4, 0, 7, 255, 0, 0, 0, 0, 0, 0], missionchoose := [6, 2, 1, 3, 5, 9, 4, 0, 0, 0, 0, 0, 0]\<rparr>)) = 13
   \<and> length (missionchoose (zero_pilot\<lparr>battlestatus := [3, 1, 2, 4, 0, 7, 255, 0, 0, 0, 0, 0, 0], missionchoose := [6, 2, 1, 3, 5, 9, 4, 0, 0, 0, 0, 0, 0]\<rparr>)) = 13
   \<and> out_battles (zero_pilot\<lparr>battlestatus := [3, 1, 2, 4, 0, 7, 255, 0, 0, 0, 0, 0, 0], missionchoose := [6, 2, 1, 3, 5, 9, 4, 0, 0, 0, 0, 0, 0]\<rparr>) =
       Inr (endl @ ''Battle 1 status:'' @ tab @ ''completed. Last mission: 6''
          @ endl @ ''Battle 2 status:'' @ tab @ ''active. Last mission: 2''
          @ endl @ ''Battle 3 status:'' @ tab @ ''captured or killed. Last mission: 1''
          @ endl @ ''Battle 4 status:'' @ tab @ ''captured or killed. Last mission: 3''
          @ endl @ ''Battle 5 status:'' @ tab @ ''unknown''
          @ endl @ ''Battle 6 status:'' @ tab @ ''unknown''
          @ endl @ ''Battle 7 status:'' @ tab @ ''unknown''
          @ endl @ ''Battle 8 status:'' @ tab @ ''unknown''
          @ endl @ ''Battle 9 status:'' @ tab @ ''unknown''
          @ endl @ ''Battle 10 status:'' @ tab @ ''unknown''
          @ endl @ ''Battle 11 status:'' @ tab @ ''unknown''
          @ endl @ ''Battle 12 status:'' @ tab @ ''unknown''
          @ endl @ ''Battle 13 status:'' @ tab @ ''unknown'')"
  using battle_status_lines [of "zero_pilot\<lparr>battlestatus := [3, 1, 2, 4, 0, 7, 255, 0, 0, 0, 0, 0, 0], missionchoose := [6, 2, 1, 3, 5, 9, 4, 0, 0, 0, 0, 0, 0]\<rparr>"]
  by (simp add: zero_pilot_def show_nat.simps upt_conv_Cons del: upt_Suc)

text \<open>
  Claim C10: the line of the active battle shows the byte at offset 616 plus one; the sum
  is not a byte, so 255 is shown as 256.
\<close>

theorem active_battle_plus_one:
  "(\<exists>p'. read_battles (p\<lparr>pilotfilebuffer := load_file rb file\<rparr>) = Inr p'
        \<and> activebattle p' = load_file rb file ! 616
        \<and> out_activebattle p' =
            endl @ ''Active Battle:'' @ tab @ show_nat (unat (load_file rb file ! 616) + 1))
   \<and> out_activebattle (q\<lparr>activebattle := v\<rparr>) =
       endl @ ''Active Battle:'' @ tab @ show_nat (unat v + 1)
   \<and> out_activebattle (q\<lparr>activebattle := 255\<rparr>) = endl @ ''Active Battle:'' @ tab @ ''256''"
proof -
  let ?buf = "load_file rb file"
  have bs: "copy_loop (\<lambda>i. elem ?buf (617 + i)) 13 0 [] =
      Inr ([] @ map (\<lambda>i. ?buf ! (617 + i)) [0..<13])"
    by (rule copy_loop_eq) (simp_all add: elem_in length_load_file)
  have ms: "copy_loop (\<lambda>i. elem ?buf (637 + i)) 13 0 [] =
      Inr ([] @ map (\<lambda>i. ?buf ! (637 + i)) [0..<13])"
    by (rule copy_loop_eq) (simp_all add: elem_in length_load_file)
  have n: "nat (uint w + 1) = unat w + 1" for w :: BYTE
    by (simp add: nat_add_distrib)
  have "out_activebattle (q\<lparr>activebattle := 255\<rparr>) = endl @ ''Active Battle:'' @ tab @ ''256''"
    by (simp add: out_activebattle_def show_int_nat show_nat.simps)
  then show ?thesis
    by (simp add: read_battles_def bs ms elem_in length_load_file out_activebattle_def
        show_int_nat n)
qed

end
